theory Spec2Isabelle
  imports Main "HOL-Library.Word"
begin

section \<open>Values of the Go program\<close>

text \<open>
  The embedding follows \<^verbatim>\<open>src/redis/command.go\<close>. A byte slice and a Go string are both
  lists of bytes. \<^verbatim>\<open>int64\<close> and \<^verbatim>\<open>time.Duration\<close> are 64-bit words (read signed with
  \<open>sint\<close>); a Go \<^verbatim>\<open>int\<close> is given by its mathematical value, since the code only compares
  and converts such values. A \<^verbatim>\<open>float64\<close> is its 64-bit IEEE-754 pattern: the code never
  computes on floats, it only hands them to parsing and formatting helpers. A slice is the
  list of its elements (the nil slice is the empty list) and a map is a partial function
  (the nil map is the empty map); the one place where a nil slice is told apart is the
  result of \<^verbatim>\<open>Reply()\<close>, which is an \<open>option\<close>.
\<close>

type_synonym bytes = string
type_synonym int64 = "64 word"
type_synonym float64 = "64 word"
type_synonym Duration = "64 word"

abbreviation CRLF :: string where
  "CRLF \<equiv> [CHR 0x0D, CHR 0x0A]"

abbreviation Millisecond :: Duration where
  "Millisecond \<equiv> 1000000"

text \<open>
  Modelled from the spec: the sentinel error \<^verbatim>\<open>Nil\<close> is declared outside
  \<^verbatim>\<open>command.go\<close>; it is \<open>Nil_err\<close> here, apart from the empty list. The spec calls it a
  shared sentinel value that formatters recognise by the message text \<^verbatim>\<open>redis: nil\<close>. A Go
  \<^verbatim>\<open>error\<close> is an interface value; \<open>OtherError m\<close> stands for any error value other than
  the sentinel, with message \<open>m\<close>, so that \<open>OtherError ''redis: nil''\<close> is a foreign error
  that merely prints like the sentinel. A nilable \<^verbatim>\<open>error\<close> is an \<open>error option\<close>.
\<close>

datatype error = Nil_err | OtherError string

fun Error :: "error \<Rightarrow> string" where
  "Error Nil_err = ''redis: nil''"
| "Error (OtherError m) = m"

text \<open>
  Modelled from the spec: the record \<^verbatim>\<open>Z\<close> (member and floating-point score of a sorted
  set) is declared outside \<^verbatim>\<open>command.go\<close>.
\<close>

record Z =
  Score :: float64
  Member :: string

record ClusterSlotInfo =
  Start :: int
  End :: int
  Addrs :: "string list"

text \<open>
  A value of type \<^verbatim>\<open>interface{}\<close>: the nil interface, or a value tagged with its dynamic
  type. The tags are the types that the code asserts or switches on.
\<close>

datatype iface =
    INil
  | IInt int
  | IInt64 int64
  | IString string
  | IFloat64 float64
  | IBool bool
  | ISlice "iface list"
  | IStringSlice "string list"
  | IBoolSlice "bool list"
  | IStringStringMap "string \<rightharpoonup> string"
  | IStringIntMap "string \<rightharpoonup> int64"
  | IZSlice "Z list"
  | IClusterSlotInfoSlice "ClusterSlotInfo list"

text \<open>A run-time panic of the Go program is the left summand of a result.\<close>

datatype panic = TypeAssertionPanic | IndexOutOfRangePanic

definition index :: "'a list \<Rightarrow> int \<Rightarrow> panic + 'a" where
  "index xs i = (if 0 \<le> i \<and> i < int (length xs) then Inr (xs ! nat i) else Inl IndexOutOfRangePanic)"

section \<open>Helpers that \<^verbatim>\<open>command.go\<close> calls but does not define\<close>

text \<open>
  Modelled from the spec: \<^verbatim>\<open>formatInt\<close> and \<^verbatim>\<open>util.Itoa\<close> are defined outside
  \<^verbatim>\<open>command.go\<close>. The spec fixes them as the decimal rendering of an integer (integer frames
  \<^verbatim>\<open>:42\<close>, bulk lengths as byte counts in decimal).
\<close>

fun digits :: "nat \<Rightarrow> string" where
  "digits n =
     (if n < 10 then [''0123456789'' ! n]
      else digits (n div 10) @ [''0123456789'' ! (n mod 10)])"

declare digits.simps [simp del]

definition decimal :: "int \<Rightarrow> string" where
  "decimal i = (if i < 0 then CHR ''-'' # digits (nat (- i)) else digits (nat i))"

definition formatInt :: "int64 \<Rightarrow> string" where
  "formatInt i = decimal (sint i)"

definition Itoa :: "int \<Rightarrow> string" where
  "Itoa i = decimal i"

definition len :: "'a list \<Rightarrow> int" where
  "len xs = int (length xs)"

text \<open>
  The remaining helpers and the second sentinel are parameters: the float and duration
  formatters of the package, the sentinel \<^verbatim>\<open>TypeAssertedErr\<close>, and the two parsers of Go's
  \<^verbatim>\<open>strconv\<close> (at base 10 and 64 bits), each returning its value and a nilable error.
\<close>

record extern =
  formatFloat :: "float64 \<Rightarrow> string"
  formatMs :: "Duration \<Rightarrow> string"
  formatSec :: "Duration \<Rightarrow> string"
  TypeAssertedErr :: error
  ParseFloat :: "string \<Rightarrow> float64 \<times> error option"
  ParseInt :: "string \<Rightarrow> int64 \<times> error option"

text \<open>A \<^verbatim>\<open>bytes.Buffer\<close> is the list of bytes written so far.\<close>

definition WriteByte :: "char \<Rightarrow> bytes \<Rightarrow> bytes" where
  "WriteByte c b = b @ [c]"

definition WriteString :: "string \<Rightarrow> bytes \<Rightarrow> bytes" where
  "WriteString s b = b @ s"

section \<open>Reply formatters\<close>

definition FormatStatus :: "string \<Rightarrow> bytes" where
  "FormatStatus val =
     (let b = [];
          b = WriteString ''+'' b;
          b = WriteString val b;
          b = WriteString CRLF b
      in b)"

definition FormatInt :: "int64 \<Rightarrow> bytes" where
  "FormatInt val =
     (let b = [];
          b = WriteByte (CHR '':'') b;
          b = WriteString (formatInt val) b;
          b = WriteString CRLF b
      in b)"

definition FormatDuration :: "extern \<Rightarrow> Duration \<Rightarrow> Duration \<Rightarrow> bytes" where
  "FormatDuration ext val pre =
     (let b = [];
          b = WriteByte (CHR '':'') b;
          b = (if pre = Millisecond then WriteString (formatMs ext val) b
               else WriteString (formatSec ext val) b);
          b = WriteString CRLF b
      in b)"

definition FormatBool :: "bool \<Rightarrow> bytes" where
  "FormatBool val =
     (let b = [];
          b = WriteByte (CHR '':'') b;
          b = (if val then WriteByte (CHR ''1'') b else WriteByte (CHR ''0'') b);
          b = WriteString CRLF b
      in b)"

definition FormatString :: "string \<Rightarrow> bytes" where
  "FormatString val =
     (let b = [];
          b = WriteByte (CHR ''$'') b;
          b = WriteString (Itoa (len val)) b;
          b = WriteString CRLF b;
          b = WriteString val b;
          b = WriteString CRLF b
      in b)"

definition FormatFloat :: "extern \<Rightarrow> float64 \<Rightarrow> bytes" where
  "FormatFloat ext val =
     (let b = [];
          b = WriteByte (CHR ''$'') b;
          d = formatFloat ext val;
          b = WriteString (Itoa (len d)) b;
          b = WriteString CRLF b;
          b = WriteString d b;
          b = WriteString CRLF b
      in b)"

text \<open>
  The four typed branches of \<^verbatim>\<open>FormatSlice\<close> write the same bulk frame for the text
  \<open>d\<close> that the branch computed.
\<close>

definition write_bulk :: "string \<Rightarrow> bytes \<Rightarrow> bytes" where
  "write_bulk d b =
     (let b = WriteByte (CHR ''$'') b;
          b = WriteString (Itoa (len d)) b;
          b = WriteString CRLF b;
          b = WriteString d b;
          b = WriteString CRLF b
      in b)"

text \<open>
  The loop of \<^verbatim>\<open>FormatSlice\<close>: a nil element writes the nil bulk frame and continues;
  the default branch of the type switch returns the error frame at once, dropping the buffer.
\<close>

fun FormatSlice_loop :: "extern \<Rightarrow> iface list \<Rightarrow> bytes \<Rightarrow> bytes" where
  "FormatSlice_loop ext [] b = b"
| "FormatSlice_loop ext (INil # vs) b =
     FormatSlice_loop ext vs (WriteString (''$-1'' @ CRLF) b)"
| "FormatSlice_loop ext (v # vs) b =
     (case v of
        IInt i \<Rightarrow> FormatSlice_loop ext vs (write_bulk (formatInt (word_of_int i)) b)
      | IInt64 i \<Rightarrow> FormatSlice_loop ext vs (write_bulk (formatInt i) b)
      | IString d \<Rightarrow> FormatSlice_loop ext vs (write_bulk d b)
      | IFloat64 f \<Rightarrow> FormatSlice_loop ext vs (write_bulk (formatFloat ext f) b)
      | _ \<Rightarrow> ''-'' @ Error (TypeAssertedErr ext) @ CRLF)"

definition FormatSlice :: "extern \<Rightarrow> iface list \<Rightarrow> bytes" where
  "FormatSlice ext val =
     (let b = [];
          b = WriteByte (CHR ''*'') b;
          b = WriteString (Itoa (len val)) b;
          b = WriteString CRLF b
      in FormatSlice_loop ext val b)"

fun FormatStringSlice_loop :: "string list \<Rightarrow> bytes \<Rightarrow> bytes" where
  "FormatStringSlice_loop [] b = b"
| "FormatStringSlice_loop (v # vs) b = FormatStringSlice_loop vs (write_bulk v b)"

definition FormatStringSlice :: "string list \<Rightarrow> bytes" where
  "FormatStringSlice val =
     (let b = [];
          b = WriteByte (CHR ''*'') b;
          b = WriteString (Itoa (len val)) b;
          b = WriteString CRLF b
      in FormatStringSlice_loop val b)"

section \<open>The shared base of every command\<close>

text \<open>
  The struct \<^verbatim>\<open>baseCmd\<close>. Go's private field names begin with an underscore, which a
  name here cannot: \<^verbatim>\<open>_args\<close> is \<open>p_args\<close>, and so on. Each command struct embeds
  \<^verbatim>\<open>baseCmd\<close>, so it is a record extension and the methods of the base are defined once,
  on the record scheme. A method that mutates its receiver returns the updated record.
\<close>

record baseCmd =
  p_args :: "string list"
  err :: "error option"
  p_clusterKeyPos :: int
  p_writeTimeout :: "Duration option"
  p_readTimeout :: "Duration option"

definition Err :: "'a baseCmd_scheme \<Rightarrow> error option" where
  "Err cmd = (if err cmd \<noteq> None then err cmd else None)"

definition args :: "'a baseCmd_scheme \<Rightarrow> string list" where
  "args cmd = p_args cmd"

definition readTimeout :: "'a baseCmd_scheme \<Rightarrow> Duration option" where
  "readTimeout cmd = p_readTimeout cmd"

definition setReadTimeout :: "'a baseCmd_scheme \<Rightarrow> Duration \<Rightarrow> 'a baseCmd_scheme" where
  "setReadTimeout cmd d = cmd\<lparr>p_readTimeout := Some d\<rparr>"

definition writeTimeout :: "'a baseCmd_scheme \<Rightarrow> Duration option" where
  "writeTimeout cmd = p_writeTimeout cmd"

text \<open>
  \<^verbatim>\<open>clusterKey\<close> indexes the argument vector; the index expression is the checked
  \<open>index\<close>, so that an access out of range would show as a panic.
\<close>

definition clusterKey :: "'a baseCmd_scheme \<Rightarrow> panic + string" where
  "clusterKey cmd =
     (if p_clusterKeyPos cmd > 0 \<and> p_clusterKeyPos cmd < len (p_args cmd)
      then index (p_args cmd) (p_clusterKeyPos cmd)
      else Inr [])"

definition setWriteTimeout :: "'a baseCmd_scheme \<Rightarrow> Duration \<Rightarrow> 'a baseCmd_scheme" where
  "setWriteTimeout cmd d = cmd\<lparr>p_writeTimeout := Some d\<rparr>"

definition setErr :: "'a baseCmd_scheme \<Rightarrow> error option \<Rightarrow> 'a baseCmd_scheme" where
  "setErr cmd e = cmd\<lparr>err := e\<rparr>"

section \<open>Type assertions\<close>

text \<open>
  The unchecked assertion \<^verbatim>\<open>v.(T)\<close> yields the value when the dynamic type of \<open>v\<close> is
  \<open>T\<close> and panics otherwise, also on the nil interface.
\<close>

definition assert_int64 :: "iface \<Rightarrow> panic + int64" where
  "assert_int64 v = (case v of IInt64 i \<Rightarrow> Inr i | _ \<Rightarrow> Inl TypeAssertionPanic)"

definition assert_string :: "iface \<Rightarrow> panic + string" where
  "assert_string v = (case v of IString s \<Rightarrow> Inr s | _ \<Rightarrow> Inl TypeAssertionPanic)"

definition assert_slice :: "iface \<Rightarrow> panic + iface list" where
  "assert_slice v = (case v of ISlice xs \<Rightarrow> Inr xs | _ \<Rightarrow> Inl TypeAssertionPanic)"

definition assert_stringSlice :: "iface \<Rightarrow> panic + string list" where
  "assert_stringSlice v = (case v of IStringSlice xs \<Rightarrow> Inr xs | _ \<Rightarrow> Inl TypeAssertionPanic)"

definition assert_boolSlice :: "iface \<Rightarrow> panic + bool list" where
  "assert_boolSlice v = (case v of IBoolSlice xs \<Rightarrow> Inr xs | _ \<Rightarrow> Inl TypeAssertionPanic)"

definition assert_stringStringMap :: "iface \<Rightarrow> panic + (string \<rightharpoonup> string)" where
  "assert_stringStringMap v =
     (case v of IStringStringMap m \<Rightarrow> Inr m | _ \<Rightarrow> Inl TypeAssertionPanic)"

definition assert_stringIntMap :: "iface \<Rightarrow> panic + (string \<rightharpoonup> int64)" where
  "assert_stringIntMap v =
     (case v of IStringIntMap m \<Rightarrow> Inr m | _ \<Rightarrow> Inl TypeAssertionPanic)"

definition assert_ZSlice :: "iface \<Rightarrow> panic + Z list" where
  "assert_ZSlice v = (case v of IZSlice xs \<Rightarrow> Inr xs | _ \<Rightarrow> Inl TypeAssertionPanic)"

definition assert_ClusterSlotInfoSlice :: "iface \<Rightarrow> panic + ClusterSlotInfo list" where
  "assert_ClusterSlotInfoSlice v =
     (case v of IClusterSlotInfoSlice xs \<Rightarrow> Inr xs | _ \<Rightarrow> Inl TypeAssertionPanic)"

section \<open>The command variants\<close>

text \<open>
  The wire decoder (the package function \<^verbatim>\<open>parseReply(rd, parser)\<close>) is not part of
  \<^verbatim>\<open>command.go\<close>. Each variant's \<^verbatim>\<open>parseReply\<close> method takes the decoder's two results
  as arguments: the decoded value \<open>v\<close> and the nilable error \<open>e\<close>. It returns a panic, or
  the updated command together with the error the method returns.

  The field \<^verbatim>\<open>val\<close> of each struct is named after its struct.
\<close>

subsection \<open>Cmd\<close>

record Cmd = baseCmd +
  Cmd_val :: iface

definition NewCmd :: "string list \<Rightarrow> Cmd" where
  "NewCmd as = \<lparr>p_args = as, err = None, p_clusterKeyPos = 0, p_writeTimeout = None,
     p_readTimeout = None, Cmd_val = INil\<rparr>"

definition Cmd_reset :: "Cmd \<Rightarrow> Cmd" where
  "Cmd_reset cmd = cmd\<lparr>Cmd_val := INil, err := None\<rparr>"

definition Cmd_parseReply :: "Cmd \<Rightarrow> iface \<Rightarrow> error option \<Rightarrow> panic + Cmd \<times> error option" where
  "Cmd_parseReply cmd v e = Inr (cmd\<lparr>Cmd_val := v, err := e\<rparr>, e)"

definition Cmd_Reply :: "Cmd \<Rightarrow> bytes option" where
  "Cmd_Reply cmd = None"

subsection \<open>SliceCmd\<close>

record SliceCmd = baseCmd +
  SliceCmd_val :: "iface list"

definition NewSliceCmd :: "string list \<Rightarrow> SliceCmd" where
  "NewSliceCmd as = \<lparr>p_args = as, err = None, p_clusterKeyPos = 1, p_writeTimeout = None,
     p_readTimeout = None, SliceCmd_val = []\<rparr>"

definition SliceCmd_reset :: "SliceCmd \<Rightarrow> SliceCmd" where
  "SliceCmd_reset cmd = cmd\<lparr>SliceCmd_val := [], err := None\<rparr>"

definition SliceCmd_parseReply ::
  "SliceCmd \<Rightarrow> iface \<Rightarrow> error option \<Rightarrow> panic + SliceCmd \<times> error option" where
  "SliceCmd_parseReply cmd v e =
     (if e \<noteq> None then Inr (cmd\<lparr>err := e\<rparr>, e)
      else case assert_slice v of
             Inl p \<Rightarrow> Inl p
           | Inr xs \<Rightarrow> Inr (cmd\<lparr>SliceCmd_val := xs\<rparr>, None))"

definition SliceCmd_Reply :: "extern \<Rightarrow> SliceCmd \<Rightarrow> bytes option" where
  "SliceCmd_Reply ext cmd =
     (case Err cmd of
        Some e \<Rightarrow>
          if Error e = ''redis: nil'' then Some (''$-1'' @ CRLF)
          else Some (''-'' @ Error e @ CRLF)
      | None \<Rightarrow> Some (FormatSlice ext (SliceCmd_val cmd)))"

subsection \<open>StatusCmd\<close>

record StatusCmd = baseCmd +
  StatusCmd_val :: string

definition NewStatusCmd :: "string list \<Rightarrow> StatusCmd" where
  "NewStatusCmd as = \<lparr>p_args = as, err = None, p_clusterKeyPos = 1, p_writeTimeout = None,
     p_readTimeout = None, StatusCmd_val = []\<rparr>"

definition newKeylessStatusCmd :: "string list \<Rightarrow> StatusCmd" where
  "newKeylessStatusCmd as = \<lparr>p_args = as, err = None, p_clusterKeyPos = 0,
     p_writeTimeout = None, p_readTimeout = None, StatusCmd_val = []\<rparr>"

definition StatusCmd_reset :: "StatusCmd \<Rightarrow> StatusCmd" where
  "StatusCmd_reset cmd = cmd\<lparr>StatusCmd_val := [], err := None\<rparr>"

definition StatusCmd_parseReply ::
  "StatusCmd \<Rightarrow> iface \<Rightarrow> error option \<Rightarrow> panic + StatusCmd \<times> error option" where
  "StatusCmd_parseReply cmd v e =
     (if e \<noteq> None then Inr (cmd\<lparr>err := e\<rparr>, e)
      else case assert_string v of
             Inl p \<Rightarrow> Inl p
           | Inr s \<Rightarrow> Inr (cmd\<lparr>StatusCmd_val := s\<rparr>, None))"

definition StatusCmd_Reply :: "StatusCmd \<Rightarrow> bytes option" where
  "StatusCmd_Reply cmd =
     (case Err cmd of
        Some e \<Rightarrow>
          if Error e = ''redis: nil'' then Some (''$-1'' @ CRLF)
          else Some (''-'' @ Error e @ CRLF)
      | None \<Rightarrow> Some (FormatStatus (StatusCmd_val cmd)))"

subsection \<open>IntCmd\<close>

record IntCmd = baseCmd +
  IntCmd_val :: int64

definition NewIntCmd :: "string list \<Rightarrow> IntCmd" where
  "NewIntCmd as = \<lparr>p_args = as, err = None, p_clusterKeyPos = 1, p_writeTimeout = None,
     p_readTimeout = None, IntCmd_val = 0\<rparr>"

definition IntCmd_reset :: "IntCmd \<Rightarrow> IntCmd" where
  "IntCmd_reset cmd = cmd\<lparr>IntCmd_val := 0, err := None\<rparr>"

definition IntCmd_parseReply ::
  "IntCmd \<Rightarrow> iface \<Rightarrow> error option \<Rightarrow> panic + IntCmd \<times> error option" where
  "IntCmd_parseReply cmd v e =
     (if e \<noteq> None then Inr (cmd\<lparr>err := e\<rparr>, e)
      else case assert_int64 v of
             Inl p \<Rightarrow> Inl p
           | Inr i \<Rightarrow> Inr (cmd\<lparr>IntCmd_val := i\<rparr>, None))"

definition IntCmd_Reply :: "IntCmd \<Rightarrow> bytes option" where
  "IntCmd_Reply cmd =
     (case Err cmd of
        Some e \<Rightarrow>
          if Error e = ''redis: nil'' then Some (''$-1'' @ CRLF)
          else Some (''-'' @ Error e @ CRLF)
      | None \<Rightarrow> Some (FormatInt (IntCmd_val cmd)))"

subsection \<open>DurationCmd\<close>

record DurationCmd = baseCmd +
  DurationCmd_val :: Duration
  precision :: Duration

definition NewDurationCmd :: "Duration \<Rightarrow> string list \<Rightarrow> DurationCmd" where
  "NewDurationCmd pre as = \<lparr>p_args = as, err = None, p_clusterKeyPos = 1,
     p_writeTimeout = None, p_readTimeout = None, DurationCmd_val = 0, precision = pre\<rparr>"

definition DurationCmd_reset :: "DurationCmd \<Rightarrow> DurationCmd" where
  "DurationCmd_reset cmd = cmd\<lparr>DurationCmd_val := 0, err := None\<rparr>"

definition DurationCmd_parseReply ::
  "DurationCmd \<Rightarrow> iface \<Rightarrow> error option \<Rightarrow> panic + DurationCmd \<times> error option" where
  "DurationCmd_parseReply cmd v e =
     (if e \<noteq> None then Inr (cmd\<lparr>err := e\<rparr>, e)
      else case assert_int64 v of
             Inl p \<Rightarrow> Inl p
           | Inr i \<Rightarrow> Inr (cmd\<lparr>DurationCmd_val := i * precision cmd\<rparr>, None))"

definition DurationCmd_Reply :: "extern \<Rightarrow> DurationCmd \<Rightarrow> bytes option" where
  "DurationCmd_Reply ext cmd =
     (case Err cmd of
        Some e \<Rightarrow>
          if Error e = ''redis: nil'' then Some (''$-1'' @ CRLF)
          else Some (''-'' @ Error e @ CRLF)
      | None \<Rightarrow> Some (FormatDuration ext (DurationCmd_val cmd) (precision cmd)))"

subsection \<open>BoolCmd\<close>

record BoolCmd = baseCmd +
  BoolCmd_val :: bool

definition NewBoolCmd :: "string list \<Rightarrow> BoolCmd" where
  "NewBoolCmd as = \<lparr>p_args = as, err = None, p_clusterKeyPos = 1, p_writeTimeout = None,
     p_readTimeout = None, BoolCmd_val = False\<rparr>"

definition BoolCmd_reset :: "BoolCmd \<Rightarrow> BoolCmd" where
  "BoolCmd_reset cmd = cmd\<lparr>BoolCmd_val := False, err := None\<rparr>"

text \<open>
  The default branch calls \<^verbatim>\<open>fmt.Errorf\<close> with the verb \<^verbatim>\<open>%T\<close> and no operand, which
  Go renders as \<^verbatim>\<open>%!T(MISSING)\<close>; the error is returned and no field is written.
\<close>

definition BoolCmd_parseReply ::
  "BoolCmd \<Rightarrow> iface \<Rightarrow> error option \<Rightarrow> panic + BoolCmd \<times> error option" where
  "BoolCmd_parseReply cmd v e =
     (if e = Some Nil_err then Inr (cmd\<lparr>BoolCmd_val := False\<rparr>, None)
      else if e \<noteq> None then Inr (cmd\<lparr>err := e\<rparr>, e)
      else case v of
             IInt64 vv \<Rightarrow> Inr (cmd\<lparr>BoolCmd_val := (vv = 1)\<rparr>, None)
           | IString vv \<Rightarrow> Inr (cmd\<lparr>BoolCmd_val := (vv = ''OK'')\<rparr>, None)
           | _ \<Rightarrow> Inr (cmd, Some (OtherError ''got %!T(MISSING), wanted int64 or string'')))"

definition BoolCmd_Reply :: "BoolCmd \<Rightarrow> bytes option" where
  "BoolCmd_Reply cmd =
     (case Err cmd of
        Some e \<Rightarrow>
          if Error e = ''redis: nil'' then Some (''$-1'' @ CRLF)
          else Some (''-'' @ Error e @ CRLF)
      | None \<Rightarrow> Some (FormatBool (BoolCmd_val cmd)))"

subsection \<open>StringCmd\<close>

record StringCmd = baseCmd +
  StringCmd_val :: string

definition NewStringCmd :: "string list \<Rightarrow> StringCmd" where
  "NewStringCmd as = \<lparr>p_args = as, err = None, p_clusterKeyPos = 1, p_writeTimeout = None,
     p_readTimeout = None, StringCmd_val = []\<rparr>"

definition StringCmd_reset :: "StringCmd \<Rightarrow> StringCmd" where
  "StringCmd_reset cmd = cmd\<lparr>StringCmd_val := [], err := None\<rparr>"

definition StringCmd_parseReply ::
  "StringCmd \<Rightarrow> iface \<Rightarrow> error option \<Rightarrow> panic + StringCmd \<times> error option" where
  "StringCmd_parseReply cmd v e =
     (if e \<noteq> None then Inr (cmd\<lparr>err := e\<rparr>, e)
      else case assert_string v of
             Inl p \<Rightarrow> Inl p
           | Inr x \<Rightarrow> Inr (cmd\<lparr>StringCmd_val := x\<rparr>, None))"

definition StringCmd_Reply :: "StringCmd \<Rightarrow> bytes option" where
  "StringCmd_Reply cmd =
     (case Err cmd of
        Some e \<Rightarrow>
          if Error e = ''redis: nil'' then Some (''$-1'' @ CRLF)
          else Some (''-'' @ Error e @ CRLF)
      | None \<Rightarrow> Some (FormatString (StringCmd_val cmd)))"

subsection \<open>FloatCmd\<close>

record FloatCmd = baseCmd +
  FloatCmd_val :: float64

definition NewFloatCmd :: "string list \<Rightarrow> FloatCmd" where
  "NewFloatCmd as = \<lparr>p_args = as, err = None, p_clusterKeyPos = 1, p_writeTimeout = None,
     p_readTimeout = None, FloatCmd_val = 0\<rparr>"

definition FloatCmd_reset :: "FloatCmd \<Rightarrow> FloatCmd" where
  "FloatCmd_reset cmd = cmd\<lparr>FloatCmd_val := 0, err := None\<rparr>"

definition FloatCmd_parseReply ::
  "extern \<Rightarrow> FloatCmd \<Rightarrow> iface \<Rightarrow> error option \<Rightarrow> panic + FloatCmd \<times> error option" where
  "FloatCmd_parseReply ext cmd v e =
     (if e \<noteq> None then Inr (cmd\<lparr>err := e\<rparr>, e)
      else case assert_string v of
             Inl p \<Rightarrow> Inl p
           | Inr s \<Rightarrow>
               (case ParseFloat ext s of
                  (f, e') \<Rightarrow> Inr (cmd\<lparr>FloatCmd_val := f, err := e'\<rparr>, e')))"

definition FloatCmd_Reply :: "extern \<Rightarrow> FloatCmd \<Rightarrow> bytes option" where
  "FloatCmd_Reply ext cmd =
     (case Err cmd of
        Some e \<Rightarrow>
          if Error e = ''redis: nil'' then Some (''$-1'' @ CRLF)
          else Some (''-'' @ Error e @ CRLF)
      | None \<Rightarrow> Some (FormatFloat ext (FloatCmd_val cmd)))"

subsection \<open>StringSliceCmd\<close>

record StringSliceCmd = baseCmd +
  StringSliceCmd_val :: "string list"

definition NewStringSliceCmd :: "string list \<Rightarrow> StringSliceCmd" where
  "NewStringSliceCmd as = \<lparr>p_args = as, err = None, p_clusterKeyPos = 1, p_writeTimeout = None,
     p_readTimeout = None, StringSliceCmd_val = []\<rparr>"

definition StringSliceCmd_reset :: "StringSliceCmd \<Rightarrow> StringSliceCmd" where
  "StringSliceCmd_reset cmd = cmd\<lparr>StringSliceCmd_val := [], err := None\<rparr>"

definition StringSliceCmd_parseReply ::
  "StringSliceCmd \<Rightarrow> iface \<Rightarrow> error option \<Rightarrow> panic + StringSliceCmd \<times> error option" where
  "StringSliceCmd_parseReply cmd v e =
     (if e \<noteq> None then Inr (cmd\<lparr>err := e\<rparr>, e)
      else case assert_stringSlice v of
             Inl p \<Rightarrow> Inl p
           | Inr x \<Rightarrow> Inr (cmd\<lparr>StringSliceCmd_val := x\<rparr>, None))"

definition StringSliceCmd_Reply :: "StringSliceCmd \<Rightarrow> bytes option" where
  "StringSliceCmd_Reply cmd =
     (case Err cmd of
        Some e \<Rightarrow>
          if Error e = ''redis: nil'' then Some (''$-1'' @ CRLF)
          else Some (''-'' @ Error e @ CRLF)
      | None \<Rightarrow> Some (FormatStringSlice (StringSliceCmd_val cmd)))"

subsection \<open>BoolSliceCmd\<close>

record BoolSliceCmd = baseCmd +
  BoolSliceCmd_val :: "bool list"

definition NewBoolSliceCmd :: "string list \<Rightarrow> BoolSliceCmd" where
  "NewBoolSliceCmd as = \<lparr>p_args = as, err = None, p_clusterKeyPos = 1, p_writeTimeout = None,
     p_readTimeout = None, BoolSliceCmd_val = []\<rparr>"

definition BoolSliceCmd_reset :: "BoolSliceCmd \<Rightarrow> BoolSliceCmd" where
  "BoolSliceCmd_reset cmd = cmd\<lparr>BoolSliceCmd_val := [], err := None\<rparr>"

definition BoolSliceCmd_parseReply ::
  "BoolSliceCmd \<Rightarrow> iface \<Rightarrow> error option \<Rightarrow> panic + BoolSliceCmd \<times> error option" where
  "BoolSliceCmd_parseReply cmd v e =
     (if e \<noteq> None then Inr (cmd\<lparr>err := e\<rparr>, e)
      else case assert_boolSlice v of
             Inl p \<Rightarrow> Inl p
           | Inr x \<Rightarrow> Inr (cmd\<lparr>BoolSliceCmd_val := x\<rparr>, None))"

definition BoolSliceCmd_Reply :: "BoolSliceCmd \<Rightarrow> bytes option" where
  "BoolSliceCmd_Reply cmd = None"

subsection \<open>StringStringMapCmd\<close>

record StringStringMapCmd = baseCmd +
  StringStringMapCmd_val :: "string \<rightharpoonup> string"

definition NewStringStringMapCmd :: "string list \<Rightarrow> StringStringMapCmd" where
  "NewStringStringMapCmd as = \<lparr>p_args = as, err = None, p_clusterKeyPos = 1, p_writeTimeout = None,
     p_readTimeout = None, StringStringMapCmd_val = Map.empty\<rparr>"

definition StringStringMapCmd_reset :: "StringStringMapCmd \<Rightarrow> StringStringMapCmd" where
  "StringStringMapCmd_reset cmd = cmd\<lparr>StringStringMapCmd_val := Map.empty, err := None\<rparr>"

definition StringStringMapCmd_parseReply ::
  "StringStringMapCmd \<Rightarrow> iface \<Rightarrow> error option \<Rightarrow> panic + StringStringMapCmd \<times> error option" where
  "StringStringMapCmd_parseReply cmd v e =
     (if e \<noteq> None then Inr (cmd\<lparr>err := e\<rparr>, e)
      else case assert_stringStringMap v of
             Inl p \<Rightarrow> Inl p
           | Inr x \<Rightarrow> Inr (cmd\<lparr>StringStringMapCmd_val := x\<rparr>, None))"

definition StringStringMapCmd_Reply :: "StringStringMapCmd \<Rightarrow> bytes option" where
  "StringStringMapCmd_Reply cmd = None"

subsection \<open>StringIntMapCmd\<close>

record StringIntMapCmd = baseCmd +
  StringIntMapCmd_val :: "string \<rightharpoonup> int64"

definition NewStringIntMapCmd :: "string list \<Rightarrow> StringIntMapCmd" where
  "NewStringIntMapCmd as = \<lparr>p_args = as, err = None, p_clusterKeyPos = 1, p_writeTimeout = None,
     p_readTimeout = None, StringIntMapCmd_val = Map.empty\<rparr>"

definition StringIntMapCmd_reset :: "StringIntMapCmd \<Rightarrow> StringIntMapCmd" where
  "StringIntMapCmd_reset cmd = cmd\<lparr>StringIntMapCmd_val := Map.empty, err := None\<rparr>"

definition StringIntMapCmd_parseReply ::
  "StringIntMapCmd \<Rightarrow> iface \<Rightarrow> error option \<Rightarrow> panic + StringIntMapCmd \<times> error option" where
  "StringIntMapCmd_parseReply cmd v e =
     (if e \<noteq> None then Inr (cmd\<lparr>err := e\<rparr>, e)
      else case assert_stringIntMap v of
             Inl p \<Rightarrow> Inl p
           | Inr x \<Rightarrow> Inr (cmd\<lparr>StringIntMapCmd_val := x\<rparr>, None))"

definition StringIntMapCmd_Reply :: "StringIntMapCmd \<Rightarrow> bytes option" where
  "StringIntMapCmd_Reply cmd = None"

subsection \<open>ZSliceCmd\<close>

record ZSliceCmd = baseCmd +
  ZSliceCmd_val :: "Z list"

definition NewZSliceCmd :: "string list \<Rightarrow> ZSliceCmd" where
  "NewZSliceCmd as = \<lparr>p_args = as, err = None, p_clusterKeyPos = 1, p_writeTimeout = None,
     p_readTimeout = None, ZSliceCmd_val = []\<rparr>"

definition ZSliceCmd_reset :: "ZSliceCmd \<Rightarrow> ZSliceCmd" where
  "ZSliceCmd_reset cmd = cmd\<lparr>ZSliceCmd_val := [], err := None\<rparr>"

definition ZSliceCmd_parseReply ::
  "ZSliceCmd \<Rightarrow> iface \<Rightarrow> error option \<Rightarrow> panic + ZSliceCmd \<times> error option" where
  "ZSliceCmd_parseReply cmd v e =
     (if e \<noteq> None then Inr (cmd\<lparr>err := e\<rparr>, e)
      else case assert_ZSlice v of
             Inl p \<Rightarrow> Inl p
           | Inr x \<Rightarrow> Inr (cmd\<lparr>ZSliceCmd_val := x\<rparr>, None))"

definition ZSliceCmd_Reply :: "ZSliceCmd \<Rightarrow> bytes option" where
  "ZSliceCmd_Reply cmd = None"

subsection \<open>ScanCmd\<close>

record ScanCmd = baseCmd +
  cursor :: int64
  keys :: "string list"

definition NewScanCmd :: "string list \<Rightarrow> ScanCmd" where
  "NewScanCmd as = \<lparr>p_args = as, err = None, p_clusterKeyPos = 1, p_writeTimeout = None,
     p_readTimeout = None, cursor = 0, keys = []\<rparr>"

definition ScanCmd_reset :: "ScanCmd \<Rightarrow> ScanCmd" where
  "ScanCmd_reset cmd = cmd\<lparr>cursor := 0, keys := [], err := None\<rparr>"

text \<open>The loop that appends each asserted key to \<^verbatim>\<open>cmd.keys\<close>.\<close>

fun ScanCmd_append_keys :: "iface list \<Rightarrow> string list \<Rightarrow> panic + string list" where
  "ScanCmd_append_keys [] ks = Inr ks"
| "ScanCmd_append_keys (keyi # rest) ks =
     (case assert_string keyi of
        Inl p \<Rightarrow> Inl p
      | Inr k \<Rightarrow> ScanCmd_append_keys rest (ks @ [k]))"

definition ScanCmd_parseReply ::
  "extern \<Rightarrow> ScanCmd \<Rightarrow> iface \<Rightarrow> error option \<Rightarrow> panic + ScanCmd \<times> error option" where
  "ScanCmd_parseReply ext cmd vi e =
     (if e \<noteq> None then Inr (cmd\<lparr>err := e\<rparr>, e)
      else case assert_slice vi of
        Inl p \<Rightarrow> Inl p
      | Inr v \<Rightarrow>
         (case index v 0 of
            Inl p \<Rightarrow> Inl p
          | Inr v0 \<Rightarrow>
             (case assert_string v0 of
                Inl p \<Rightarrow> Inl p
              | Inr s \<Rightarrow>
                 (case ParseInt ext s of
                    (c, e') \<Rightarrow>
                      (let cmd = cmd\<lparr>cursor := c, err := e'\<rparr> in
                       if e' \<noteq> None then Inr (cmd, e')
                       else case index v 1 of
                          Inl p \<Rightarrow> Inl p
                        | Inr v1 \<Rightarrow>
                           (case assert_slice v1 of
                              Inl p \<Rightarrow> Inl p
                            | Inr ks \<Rightarrow>
                               (case ScanCmd_append_keys ks (keys cmd) of
                                  Inl p \<Rightarrow> Inl p
                                | Inr ks' \<Rightarrow> Inr (cmd\<lparr>keys := ks'\<rparr>, None))))))))"

definition ScanCmd_Reply :: "ScanCmd \<Rightarrow> bytes option" where
  "ScanCmd_Reply cmd = None"

subsection \<open>ClusterSlotCmd\<close>

record ClusterSlotCmd = baseCmd +
  ClusterSlotCmd_val :: "ClusterSlotInfo list"

definition NewClusterSlotCmd :: "string list \<Rightarrow> ClusterSlotCmd" where
  "NewClusterSlotCmd as = \<lparr>p_args = as, err = None, p_clusterKeyPos = 1, p_writeTimeout = None,
     p_readTimeout = None, ClusterSlotCmd_val = []\<rparr>"

definition ClusterSlotCmd_reset :: "ClusterSlotCmd \<Rightarrow> ClusterSlotCmd" where
  "ClusterSlotCmd_reset cmd = cmd\<lparr>ClusterSlotCmd_val := [], err := None\<rparr>"

definition ClusterSlotCmd_parseReply ::
  "ClusterSlotCmd \<Rightarrow> iface \<Rightarrow> error option \<Rightarrow> panic + ClusterSlotCmd \<times> error option" where
  "ClusterSlotCmd_parseReply cmd v e =
     (if e \<noteq> None then Inr (cmd\<lparr>err := e\<rparr>, e)
      else case assert_ClusterSlotInfoSlice v of
             Inl p \<Rightarrow> Inl p
           | Inr x \<Rightarrow> Inr (cmd\<lparr>ClusterSlotCmd_val := x\<rparr>, None))"

definition ClusterSlotCmd_Reply :: "ClusterSlotCmd \<Rightarrow> bytes option" where
  "ClusterSlotCmd_Reply cmd = None"

section \<open>The interface \<^verbatim>\<open>Cmder\<close>\<close>

text \<open>
  A value of the interface \<^verbatim>\<open>Cmder\<close> is a command of one of the fifteen variants; a method
  call on it dispatches on the variant. The methods of the base apply to the embedded
  \<^verbatim>\<open>baseCmd\<close> of each variant.
\<close>

datatype Cmder =
    C_Cmd Cmd
  | C_SliceCmd SliceCmd
  | C_StatusCmd StatusCmd
  | C_IntCmd IntCmd
  | C_DurationCmd DurationCmd
  | C_BoolCmd BoolCmd
  | C_StringCmd StringCmd
  | C_FloatCmd FloatCmd
  | C_StringSliceCmd StringSliceCmd
  | C_BoolSliceCmd BoolSliceCmd
  | C_StringStringMapCmd StringStringMapCmd
  | C_StringIntMapCmd StringIntMapCmd
  | C_ZSliceCmd ZSliceCmd
  | C_ScanCmd ScanCmd
  | C_ClusterSlotCmd ClusterSlotCmd

fun Cmder_args :: "Cmder \<Rightarrow> string list" where
  "Cmder_args (C_Cmd cmd) = args cmd"
| "Cmder_args (C_SliceCmd cmd) = args cmd"
| "Cmder_args (C_StatusCmd cmd) = args cmd"
| "Cmder_args (C_IntCmd cmd) = args cmd"
| "Cmder_args (C_DurationCmd cmd) = args cmd"
| "Cmder_args (C_BoolCmd cmd) = args cmd"
| "Cmder_args (C_StringCmd cmd) = args cmd"
| "Cmder_args (C_FloatCmd cmd) = args cmd"
| "Cmder_args (C_StringSliceCmd cmd) = args cmd"
| "Cmder_args (C_BoolSliceCmd cmd) = args cmd"
| "Cmder_args (C_StringStringMapCmd cmd) = args cmd"
| "Cmder_args (C_StringIntMapCmd cmd) = args cmd"
| "Cmder_args (C_ZSliceCmd cmd) = args cmd"
| "Cmder_args (C_ScanCmd cmd) = args cmd"
| "Cmder_args (C_ClusterSlotCmd cmd) = args cmd"

fun Cmder_Err :: "Cmder \<Rightarrow> error option" where
  "Cmder_Err (C_Cmd cmd) = Err cmd"
| "Cmder_Err (C_SliceCmd cmd) = Err cmd"
| "Cmder_Err (C_StatusCmd cmd) = Err cmd"
| "Cmder_Err (C_IntCmd cmd) = Err cmd"
| "Cmder_Err (C_DurationCmd cmd) = Err cmd"
| "Cmder_Err (C_BoolCmd cmd) = Err cmd"
| "Cmder_Err (C_StringCmd cmd) = Err cmd"
| "Cmder_Err (C_FloatCmd cmd) = Err cmd"
| "Cmder_Err (C_StringSliceCmd cmd) = Err cmd"
| "Cmder_Err (C_BoolSliceCmd cmd) = Err cmd"
| "Cmder_Err (C_StringStringMapCmd cmd) = Err cmd"
| "Cmder_Err (C_StringIntMapCmd cmd) = Err cmd"
| "Cmder_Err (C_ZSliceCmd cmd) = Err cmd"
| "Cmder_Err (C_ScanCmd cmd) = Err cmd"
| "Cmder_Err (C_ClusterSlotCmd cmd) = Err cmd"

fun Cmder_clusterKey :: "Cmder \<Rightarrow> panic + string" where
  "Cmder_clusterKey (C_Cmd cmd) = clusterKey cmd"
| "Cmder_clusterKey (C_SliceCmd cmd) = clusterKey cmd"
| "Cmder_clusterKey (C_StatusCmd cmd) = clusterKey cmd"
| "Cmder_clusterKey (C_IntCmd cmd) = clusterKey cmd"
| "Cmder_clusterKey (C_DurationCmd cmd) = clusterKey cmd"
| "Cmder_clusterKey (C_BoolCmd cmd) = clusterKey cmd"
| "Cmder_clusterKey (C_StringCmd cmd) = clusterKey cmd"
| "Cmder_clusterKey (C_FloatCmd cmd) = clusterKey cmd"
| "Cmder_clusterKey (C_StringSliceCmd cmd) = clusterKey cmd"
| "Cmder_clusterKey (C_BoolSliceCmd cmd) = clusterKey cmd"
| "Cmder_clusterKey (C_StringStringMapCmd cmd) = clusterKey cmd"
| "Cmder_clusterKey (C_StringIntMapCmd cmd) = clusterKey cmd"
| "Cmder_clusterKey (C_ZSliceCmd cmd) = clusterKey cmd"
| "Cmder_clusterKey (C_ScanCmd cmd) = clusterKey cmd"
| "Cmder_clusterKey (C_ClusterSlotCmd cmd) = clusterKey cmd"

fun Cmder_setErr :: "Cmder \<Rightarrow> error option \<Rightarrow> Cmder" where
  "Cmder_setErr (C_Cmd cmd) e = C_Cmd (setErr cmd e)"
| "Cmder_setErr (C_SliceCmd cmd) e = C_SliceCmd (setErr cmd e)"
| "Cmder_setErr (C_StatusCmd cmd) e = C_StatusCmd (setErr cmd e)"
| "Cmder_setErr (C_IntCmd cmd) e = C_IntCmd (setErr cmd e)"
| "Cmder_setErr (C_DurationCmd cmd) e = C_DurationCmd (setErr cmd e)"
| "Cmder_setErr (C_BoolCmd cmd) e = C_BoolCmd (setErr cmd e)"
| "Cmder_setErr (C_StringCmd cmd) e = C_StringCmd (setErr cmd e)"
| "Cmder_setErr (C_FloatCmd cmd) e = C_FloatCmd (setErr cmd e)"
| "Cmder_setErr (C_StringSliceCmd cmd) e = C_StringSliceCmd (setErr cmd e)"
| "Cmder_setErr (C_BoolSliceCmd cmd) e = C_BoolSliceCmd (setErr cmd e)"
| "Cmder_setErr (C_StringStringMapCmd cmd) e = C_StringStringMapCmd (setErr cmd e)"
| "Cmder_setErr (C_StringIntMapCmd cmd) e = C_StringIntMapCmd (setErr cmd e)"
| "Cmder_setErr (C_ZSliceCmd cmd) e = C_ZSliceCmd (setErr cmd e)"
| "Cmder_setErr (C_ScanCmd cmd) e = C_ScanCmd (setErr cmd e)"
| "Cmder_setErr (C_ClusterSlotCmd cmd) e = C_ClusterSlotCmd (setErr cmd e)"

fun Cmder_reset :: "Cmder \<Rightarrow> Cmder" where
  "Cmder_reset (C_Cmd cmd) = C_Cmd (Cmd_reset cmd)"
| "Cmder_reset (C_SliceCmd cmd) = C_SliceCmd (SliceCmd_reset cmd)"
| "Cmder_reset (C_StatusCmd cmd) = C_StatusCmd (StatusCmd_reset cmd)"
| "Cmder_reset (C_IntCmd cmd) = C_IntCmd (IntCmd_reset cmd)"
| "Cmder_reset (C_DurationCmd cmd) = C_DurationCmd (DurationCmd_reset cmd)"
| "Cmder_reset (C_BoolCmd cmd) = C_BoolCmd (BoolCmd_reset cmd)"
| "Cmder_reset (C_StringCmd cmd) = C_StringCmd (StringCmd_reset cmd)"
| "Cmder_reset (C_FloatCmd cmd) = C_FloatCmd (FloatCmd_reset cmd)"
| "Cmder_reset (C_StringSliceCmd cmd) = C_StringSliceCmd (StringSliceCmd_reset cmd)"
| "Cmder_reset (C_BoolSliceCmd cmd) = C_BoolSliceCmd (BoolSliceCmd_reset cmd)"
| "Cmder_reset (C_StringStringMapCmd cmd) = C_StringStringMapCmd (StringStringMapCmd_reset cmd)"
| "Cmder_reset (C_StringIntMapCmd cmd) = C_StringIntMapCmd (StringIntMapCmd_reset cmd)"
| "Cmder_reset (C_ZSliceCmd cmd) = C_ZSliceCmd (ZSliceCmd_reset cmd)"
| "Cmder_reset (C_ScanCmd cmd) = C_ScanCmd (ScanCmd_reset cmd)"
| "Cmder_reset (C_ClusterSlotCmd cmd) = C_ClusterSlotCmd (ClusterSlotCmd_reset cmd)"

fun Cmder_Reply :: "extern \<Rightarrow> Cmder \<Rightarrow> bytes option" where
  "Cmder_Reply ext (C_Cmd cmd) = Cmd_Reply cmd"
| "Cmder_Reply ext (C_SliceCmd cmd) = SliceCmd_Reply ext cmd"
| "Cmder_Reply ext (C_StatusCmd cmd) = StatusCmd_Reply cmd"
| "Cmder_Reply ext (C_IntCmd cmd) = IntCmd_Reply cmd"
| "Cmder_Reply ext (C_DurationCmd cmd) = DurationCmd_Reply ext cmd"
| "Cmder_Reply ext (C_BoolCmd cmd) = BoolCmd_Reply cmd"
| "Cmder_Reply ext (C_StringCmd cmd) = StringCmd_Reply cmd"
| "Cmder_Reply ext (C_FloatCmd cmd) = FloatCmd_Reply ext cmd"
| "Cmder_Reply ext (C_StringSliceCmd cmd) = StringSliceCmd_Reply cmd"
| "Cmder_Reply ext (C_BoolSliceCmd cmd) = BoolSliceCmd_Reply cmd"
| "Cmder_Reply ext (C_StringStringMapCmd cmd) = StringStringMapCmd_Reply cmd"
| "Cmder_Reply ext (C_StringIntMapCmd cmd) = StringIntMapCmd_Reply cmd"
| "Cmder_Reply ext (C_ZSliceCmd cmd) = ZSliceCmd_Reply cmd"
| "Cmder_Reply ext (C_ScanCmd cmd) = ScanCmd_Reply cmd"
| "Cmder_Reply ext (C_ClusterSlotCmd cmd) = ClusterSlotCmd_Reply cmd"

text \<open>
  The loops of \<^verbatim>\<open>setCmdsErr\<close> and \<^verbatim>\<open>resetCmds\<close> call the method on each command in
  turn; the result is the list of the commands after the calls.
\<close>

fun setCmdsErr :: "Cmder list \<Rightarrow> error option \<Rightarrow> Cmder list" where
  "setCmdsErr [] e = []"
| "setCmdsErr (cmd # cmds) e = Cmder_setErr cmd e # setCmdsErr cmds e"

fun resetCmds :: "Cmder list \<Rightarrow> Cmder list" where
  "resetCmds [] = []"
| "resetCmds (cmd # cmds) = Cmder_reset cmd # resetCmds cmds"

text \<open>
  What the method \<^verbatim>\<open>Val()\<close> of a command returns, tagged with the variant (the \<^verbatim>\<open>Val()\<close>
  of a \<^verbatim>\<open>ScanCmd\<close> returns the cursor and the keys).
\<close>

datatype Val =
    V_Cmd iface
  | V_SliceCmd "iface list"
  | V_StatusCmd string
  | V_IntCmd int64
  | V_DurationCmd Duration
  | V_BoolCmd bool
  | V_StringCmd string
  | V_FloatCmd float64
  | V_StringSliceCmd "string list"
  | V_BoolSliceCmd "bool list"
  | V_StringStringMapCmd "string \<rightharpoonup> string"
  | V_StringIntMapCmd "string \<rightharpoonup> int64"
  | V_ZSliceCmd "Z list"
  | V_ScanCmd int64 "string list"
  | V_ClusterSlotCmd "ClusterSlotInfo list"

fun Cmder_Val :: "Cmder \<Rightarrow> Val" where
  "Cmder_Val (C_Cmd cmd) = V_Cmd (Cmd_val cmd)"
| "Cmder_Val (C_SliceCmd cmd) = V_SliceCmd (SliceCmd_val cmd)"
| "Cmder_Val (C_StatusCmd cmd) = V_StatusCmd (StatusCmd_val cmd)"
| "Cmder_Val (C_IntCmd cmd) = V_IntCmd (IntCmd_val cmd)"
| "Cmder_Val (C_DurationCmd cmd) = V_DurationCmd (DurationCmd_val cmd)"
| "Cmder_Val (C_BoolCmd cmd) = V_BoolCmd (BoolCmd_val cmd)"
| "Cmder_Val (C_StringCmd cmd) = V_StringCmd (StringCmd_val cmd)"
| "Cmder_Val (C_FloatCmd cmd) = V_FloatCmd (FloatCmd_val cmd)"
| "Cmder_Val (C_StringSliceCmd cmd) = V_StringSliceCmd (StringSliceCmd_val cmd)"
| "Cmder_Val (C_BoolSliceCmd cmd) = V_BoolSliceCmd (BoolSliceCmd_val cmd)"
| "Cmder_Val (C_StringStringMapCmd cmd) = V_StringStringMapCmd (StringStringMapCmd_val cmd)"
| "Cmder_Val (C_StringIntMapCmd cmd) = V_StringIntMapCmd (StringIntMapCmd_val cmd)"
| "Cmder_Val (C_ZSliceCmd cmd) = V_ZSliceCmd (ZSliceCmd_val cmd)"
| "Cmder_Val (C_ScanCmd cmd) = V_ScanCmd (cursor cmd) (keys cmd)"
| "Cmder_Val (C_ClusterSlotCmd cmd) = V_ClusterSlotCmd (ClusterSlotCmd_val cmd)"

text \<open>
  The element types for which the type switch of \<^verbatim>\<open>FormatSlice\<close> has a branch, with the
  nil interface that is tested before the switch.
\<close>

fun supported :: "iface \<Rightarrow> bool" where
  "supported INil = True"
| "supported (IInt i) = True"
| "supported (IInt64 i) = True"
| "supported (IString d) = True"
| "supported (IFloat64 f) = True"
| "supported v = False"

section \<open>Properties\<close>

subsection \<open>Narrowing the decoded value\<close>

text \<open>
  C1 says that a variant that cannot narrow the decoded value stores a typed
  unexpected-shape error, never panics and never keeps a zero value with a nil error. The
  code does otherwise. With no decode error, \<^verbatim>\<open>IntCmd.parseReply\<close> applies the unchecked
  assertion \<^verbatim>\<open>v.(int64)\<close>: on a status string or an array it panics, for every command.
  \<^verbatim>\<open>BoolCmd.parseReply\<close> on an array returns an error made by \<^verbatim>\<open>fmt.Errorf\<close> and writes
  no field, so that a command that was reset keeps the value false and \<^verbatim>\<open>Err()\<close> nil.
\<close>

theorem C1_unchecked_narrowing:
  "IntCmd_parseReply cmd (IString s) None = Inl TypeAssertionPanic \<and>
   IntCmd_parseReply cmd (ISlice xs) None = Inl TypeAssertionPanic \<and>
   IntCmd_parseReply (NewIntCmd [''INCR'', ''k'']) (IString ''OK'') None = Inl TypeAssertionPanic \<and>
   BoolCmd_parseReply (BoolCmd_reset bcmd) (ISlice xs) None =
     Inr (BoolCmd_reset bcmd, Some (OtherError ''got %!T(MISSING), wanted int64 or string'')) \<and>
   BoolCmd_val (BoolCmd_reset bcmd) = False \<and> Err (BoolCmd_reset bcmd) = None"
  by (simp add: IntCmd_parseReply_def assert_int64_def BoolCmd_parseReply_def
      BoolCmd_reset_def Err_def)

subsection \<open>Re-encoding a stored error\<close>

text \<open>
  C2 as stated fails. It speaks of every variant, but the generic \<^verbatim>\<open>Cmd\<close> holding the
  sentinel \<^verbatim>\<open>Nil\<close> replies with nil and not with the nil bulk frame. It also speaks of the
  identity of the error, but the code compares messages: an \<^verbatim>\<open>IntCmd\<close> holding another
  error whose message is \<^verbatim>\<open>redis: nil\<close> replies with the nil bulk frame and not with an
  error frame.
\<close>

theorem C2_counterexample:
  "Cmd_Reply ((NewCmd [''GET'', ''k''])\<lparr>err := Some Nil_err\<rparr>) \<noteq> Some (''$-1'' @ CRLF) \<and>
   Err ((NewCmd [''GET'', ''k''])\<lparr>err := Some Nil_err\<rparr>) = Some Nil_err \<and>
   OtherError ''redis: nil'' \<noteq> Nil_err \<and>
   IntCmd_Reply ((NewIntCmd [''INCR'', ''k''])\<lparr>err := Some (OtherError ''redis: nil'')\<rparr>)
     \<noteq> Some (''-'' @ Error (OtherError ''redis: nil'') @ CRLF)"
  by (simp add: Cmd_Reply_def IntCmd_Reply_def Err_def NewCmd_def NewIntCmd_def)

text \<open>
  C2, amended: for the Slice, Status, Int, Duration, Bool, String, Float and StringSlice
  variants, a command holding a stored error \<open>e\<close> replies with exactly \<^verbatim>\<open>$-1\r\n\<close> when the
  message of \<open>e\<close> is \<^verbatim>\<open>redis: nil\<close>, as the message of the sentinel \<^verbatim>\<open>Nil\<close> is, and with
  exactly \<^verbatim>\<open>-\<close>, the message and \<^verbatim>\<open>\r\n\<close> when the message is any other. Every command
  holding the error \<open>e\<close> is some command with its field \<open>err\<close> set to \<open>Some e\<close>.
\<close>

theorem C2_error_frames:
  "SliceCmd_Reply ext (c1\<lparr>err := Some e\<rparr>) =
     Some (if Error e = ''redis: nil'' then ''$-1'' @ CRLF else ''-'' @ Error e @ CRLF) \<and>
   StatusCmd_Reply (c2\<lparr>err := Some e\<rparr>) =
     Some (if Error e = ''redis: nil'' then ''$-1'' @ CRLF else ''-'' @ Error e @ CRLF) \<and>
   IntCmd_Reply (c3\<lparr>err := Some e\<rparr>) =
     Some (if Error e = ''redis: nil'' then ''$-1'' @ CRLF else ''-'' @ Error e @ CRLF) \<and>
   DurationCmd_Reply ext (c4\<lparr>err := Some e\<rparr>) =
     Some (if Error e = ''redis: nil'' then ''$-1'' @ CRLF else ''-'' @ Error e @ CRLF) \<and>
   BoolCmd_Reply (c5\<lparr>err := Some e\<rparr>) =
     Some (if Error e = ''redis: nil'' then ''$-1'' @ CRLF else ''-'' @ Error e @ CRLF) \<and>
   StringCmd_Reply (c6\<lparr>err := Some e\<rparr>) =
     Some (if Error e = ''redis: nil'' then ''$-1'' @ CRLF else ''-'' @ Error e @ CRLF) \<and>
   FloatCmd_Reply ext (c7\<lparr>err := Some e\<rparr>) =
     Some (if Error e = ''redis: nil'' then ''$-1'' @ CRLF else ''-'' @ Error e @ CRLF) \<and>
   StringSliceCmd_Reply (c8\<lparr>err := Some e\<rparr>) =
     Some (if Error e = ''redis: nil'' then ''$-1'' @ CRLF else ''-'' @ Error e @ CRLF) \<and>
   Error Nil_err = ''redis: nil''"
  by (simp add: SliceCmd_Reply_def StatusCmd_Reply_def IntCmd_Reply_def DurationCmd_Reply_def
      BoolCmd_Reply_def StringCmd_Reply_def FloatCmd_Reply_def StringSliceCmd_Reply_def Err_def)

text \<open>
  C3: for the generic \<^verbatim>\<open>Cmd\<close> and the BoolSlice, StringStringMap, StringIntMap, ZSlice,
  Scan and ClusterSlot variants, \<^verbatim>\<open>Reply()\<close> returns nil in every state of the command,
  whatever value and whatever error it holds.
\<close>

theorem C3_reply_nil:
  "Cmder_Reply ext (C_Cmd c1) = None \<and>
   Cmder_Reply ext (C_BoolSliceCmd c2) = None \<and>
   Cmder_Reply ext (C_StringStringMapCmd c3) = None \<and>
   Cmder_Reply ext (C_StringIntMapCmd c4) = None \<and>
   Cmder_Reply ext (C_ZSliceCmd c5) = None \<and>
   Cmder_Reply ext (C_ScanCmd c6) = None \<and>
   Cmder_Reply ext (C_ClusterSlotCmd c7) = None"
  by (simp add: Cmd_Reply_def BoolSliceCmd_Reply_def StringStringMapCmd_Reply_def
      StringIntMapCmd_Reply_def ZSliceCmd_Reply_def ScanCmd_Reply_def ClusterSlotCmd_Reply_def)

subsection \<open>Formatters\<close>

text \<open>
  C4: \<^verbatim>\<open>FormatInt(42)\<close> is exactly \<^verbatim>\<open>:42\r\n\<close>, \<^verbatim>\<open>FormatStatus("OK")\<close> is exactly
  \<^verbatim>\<open>+OK\r\n\<close> and \<^verbatim>\<open>FormatString("ab")\<close> is exactly \<^verbatim>\<open>$2\r\nab\r\n\<close>; for every
  payload the bulk-string length that \<^verbatim>\<open>FormatString\<close> writes is the byte count of the
  payload in decimal.
\<close>

theorem C4_format_examples:
  "FormatInt 42 = '':42'' @ CRLF \<and>
   FormatStatus ''OK'' = ''+OK'' @ CRLF \<and>
   FormatString ''ab'' = ''$2'' @ CRLF @ ''ab'' @ CRLF \<and>
   FormatString val = ''$'' @ decimal (int (length val)) @ CRLF @ val @ CRLF"
  by (simp add: FormatInt_def FormatStatus_def FormatString_def WriteByte_def
      WriteString_def formatInt_def Itoa_def len_def decimal_def digits.simps)

subsection \<open>The Bool variant\<close>

text \<open>
  C5 as stated fails on a command that already holds an error: the branch for the sentinel
  \<^verbatim>\<open>Nil\<close> assigns the value and returns, and never writes the error field. A Bool command
  into which \<^verbatim>\<open>setErr\<close> put an I/O error, and whose decode then yields \<^verbatim>\<open>Nil\<close>, has the
  value false, but \<^verbatim>\<open>Err()\<close> still returns the I/O error and \<^verbatim>\<open>Reply()\<close> is the error
  frame.
\<close>

theorem C5_counterexample:
  "BoolCmd_parseReply
     (setErr (NewBoolCmd [''SET'', ''k'', ''v'', ''NX'']) (Some (OtherError ''EOF'')))
     INil (Some Nil_err) =
     Inr ((NewBoolCmd [''SET'', ''k'', ''v'', ''NX''])
            \<lparr>err := Some (OtherError ''EOF''), BoolCmd_val := False\<rparr>, None) \<and>
   Err ((NewBoolCmd [''SET'', ''k'', ''v'', ''NX''])
          \<lparr>err := Some (OtherError ''EOF''), BoolCmd_val := False\<rparr>) =
     Some (OtherError ''EOF'') \<and>
   Err ((NewBoolCmd [''SET'', ''k'', ''v'', ''NX''])
          \<lparr>err := Some (OtherError ''EOF''), BoolCmd_val := False\<rparr>) \<noteq> None \<and>
   BoolCmd_Reply ((NewBoolCmd [''SET'', ''k'', ''v'', ''NX''])
          \<lparr>err := Some (OtherError ''EOF''), BoolCmd_val := False\<rparr>) =
     Some (''-EOF'' @ CRLF)"
  by (simp add: BoolCmd_parseReply_def BoolCmd_Reply_def setErr_def Err_def NewBoolCmd_def)

text \<open>
  C5, amended: in every state of a Bool command, when the decode yields the sentinel
  \<^verbatim>\<open>Nil\<close>, \<^verbatim>\<open>parseReply\<close> stores the value false, returns a nil error and leaves the
  error field as it was, so that \<^verbatim>\<open>Nil\<close> is neither stored nor propagated; a decoded integer
  1 stores true and a decoded string \<^verbatim>\<open>OK\<close> stores true, each returning a nil error and
  leaving the error field as it was. On a command that holds no error before the decode (as
  constructed, or after \<^verbatim>\<open>reset\<close>), \<^verbatim>\<open>Err()\<close> returns nil afterwards.
\<close>

theorem C5_bool_nil_is_false:
  "BoolCmd_parseReply cmd v (Some Nil_err) = Inr (cmd\<lparr>BoolCmd_val := False\<rparr>, None) \<and>
   BoolCmd_parseReply cmd (IInt64 1) None = Inr (cmd\<lparr>BoolCmd_val := True\<rparr>, None) \<and>
   BoolCmd_parseReply cmd (IString ''OK'') None = Inr (cmd\<lparr>BoolCmd_val := True\<rparr>, None) \<and>
   BoolCmd_val (cmd\<lparr>BoolCmd_val := False\<rparr>) = False \<and>
   BoolCmd_val (cmd\<lparr>BoolCmd_val := True\<rparr>) = True \<and>
   Err (cmd\<lparr>BoolCmd_val := False\<rparr>) = Err cmd \<and>
   Err (cmd\<lparr>BoolCmd_val := True\<rparr>) = Err cmd \<and>
   (err cmd = None \<longrightarrow>
      Err (cmd\<lparr>BoolCmd_val := False\<rparr>) = None \<and> Err (cmd\<lparr>BoolCmd_val := True\<rparr>) = None)"
  by (simp add: BoolCmd_parseReply_def Err_def)

text \<open>C5, amended, at a new \<^verbatim>\<open>SET k v NX\<close> command, which holds no error.\<close>

theorem C5_bool_nil_is_false_witness:
  "err (NewBoolCmd [''SET'', ''k'', ''v'', ''NX'']) = None \<and>
   BoolCmd_parseReply (NewBoolCmd [''SET'', ''k'', ''v'', ''NX'']) INil (Some Nil_err) =
     Inr (NewBoolCmd [''SET'', ''k'', ''v'', ''NX''], None) \<and>
   BoolCmd_val (NewBoolCmd [''SET'', ''k'', ''v'', ''NX'']) = False \<and>
   Err (NewBoolCmd [''SET'', ''k'', ''v'', ''NX'']) = None \<and>
   BoolCmd_parseReply (NewBoolCmd [''SET'', ''k'', ''v'', ''NX'']) (IString ''OK'') None =
     Inr ((NewBoolCmd [''SET'', ''k'', ''v'', ''NX''])\<lparr>BoolCmd_val := True\<rparr>, None) \<and>
   Err ((NewBoolCmd [''SET'', ''k'', ''v'', ''NX''])\<lparr>BoolCmd_val := True\<rparr>) = None"
proof -
  have h: "err (NewBoolCmd [''SET'', ''k'', ''v'', ''NX'']) = None"
    by (simp add: NewBoolCmd_def)
  show ?thesis
    using h C5_bool_nil_is_false [of "NewBoolCmd [''SET'', ''k'', ''v'', ''NX'']" INil]
    by (simp add: NewBoolCmd_def)
qed

subsection \<open>Reset and error injection\<close>

text \<open>
  C6: for every variant and every state, \<^verbatim>\<open>reset()\<close> leaves the command with the zero
  value of its result type and a nil error, and \<^verbatim>\<open>args()\<close> returns the same argument vector
  as before; the same holds through the interface \<^verbatim>\<open>Cmder\<close>.
\<close>

theorem C6_reset:
  "(Cmd_val (Cmd_reset c1) = INil \<and> Err (Cmd_reset c1) = None \<and> args (Cmd_reset c1) = args c1) \<and>
   (SliceCmd_val (SliceCmd_reset c2) = [] \<and> Err (SliceCmd_reset c2) = None \<and>
      args (SliceCmd_reset c2) = args c2) \<and>
   (StatusCmd_val (StatusCmd_reset c3) = [] \<and> Err (StatusCmd_reset c3) = None \<and>
      args (StatusCmd_reset c3) = args c3) \<and>
   (IntCmd_val (IntCmd_reset c4) = 0 \<and> Err (IntCmd_reset c4) = None \<and>
      args (IntCmd_reset c4) = args c4) \<and>
   (DurationCmd_val (DurationCmd_reset c5) = 0 \<and> Err (DurationCmd_reset c5) = None \<and>
      args (DurationCmd_reset c5) = args c5) \<and>
   (BoolCmd_val (BoolCmd_reset c6) = False \<and> Err (BoolCmd_reset c6) = None \<and>
      args (BoolCmd_reset c6) = args c6) \<and>
   (StringCmd_val (StringCmd_reset c7) = [] \<and> Err (StringCmd_reset c7) = None \<and>
      args (StringCmd_reset c7) = args c7) \<and>
   (FloatCmd_val (FloatCmd_reset c8) = 0 \<and> Err (FloatCmd_reset c8) = None \<and>
      args (FloatCmd_reset c8) = args c8) \<and>
   (StringSliceCmd_val (StringSliceCmd_reset c9) = [] \<and> Err (StringSliceCmd_reset c9) = None \<and>
      args (StringSliceCmd_reset c9) = args c9) \<and>
   (BoolSliceCmd_val (BoolSliceCmd_reset c10) = [] \<and> Err (BoolSliceCmd_reset c10) = None \<and>
      args (BoolSliceCmd_reset c10) = args c10) \<and>
   (StringStringMapCmd_val (StringStringMapCmd_reset c11) = Map.empty \<and>
      Err (StringStringMapCmd_reset c11) = None \<and>
      args (StringStringMapCmd_reset c11) = args c11) \<and>
   (StringIntMapCmd_val (StringIntMapCmd_reset c12) = Map.empty \<and>
      Err (StringIntMapCmd_reset c12) = None \<and>
      args (StringIntMapCmd_reset c12) = args c12) \<and>
   (ZSliceCmd_val (ZSliceCmd_reset c13) = [] \<and> Err (ZSliceCmd_reset c13) = None \<and>
      args (ZSliceCmd_reset c13) = args c13) \<and>
   (cursor (ScanCmd_reset c14) = 0 \<and> keys (ScanCmd_reset c14) = [] \<and>
      Err (ScanCmd_reset c14) = None \<and> args (ScanCmd_reset c14) = args c14) \<and>
   (ClusterSlotCmd_val (ClusterSlotCmd_reset c15) = [] \<and> Err (ClusterSlotCmd_reset c15) = None \<and>
      args (ClusterSlotCmd_reset c15) = args c15) \<and>
   Cmder_Err (Cmder_reset c) = None \<and> Cmder_args (Cmder_reset c) = Cmder_args c"
proof -
  have "Cmder_Err (Cmder_reset c) = None \<and> Cmder_args (Cmder_reset c) = Cmder_args c"
    by (cases c)
      (simp_all add: Err_def args_def Cmd_reset_def SliceCmd_reset_def StatusCmd_reset_def
        IntCmd_reset_def DurationCmd_reset_def BoolCmd_reset_def StringCmd_reset_def
        FloatCmd_reset_def StringSliceCmd_reset_def BoolSliceCmd_reset_def
        StringStringMapCmd_reset_def StringIntMapCmd_reset_def ZSliceCmd_reset_def
        ScanCmd_reset_def ClusterSlotCmd_reset_def)
  then show ?thesis
    by (simp add: Err_def args_def Cmd_reset_def SliceCmd_reset_def StatusCmd_reset_def
        IntCmd_reset_def DurationCmd_reset_def BoolCmd_reset_def StringCmd_reset_def
        FloatCmd_reset_def StringSliceCmd_reset_def BoolSliceCmd_reset_def
        StringStringMapCmd_reset_def StringIntMapCmd_reset_def ZSliceCmd_reset_def
        ScanCmd_reset_def ClusterSlotCmd_reset_def)
qed

text \<open>
  Injecting an error into one command of any variant: \<^verbatim>\<open>Err()\<close> returns it afterwards,
  and the value and the arguments are those of before.
\<close>

lemma Cmder_setErr_Err: "Cmder_Err (Cmder_setErr c e) = e"
  by (cases c) (simp_all add: setErr_def Err_def)

lemma Cmder_setErr_Val: "Cmder_Val (Cmder_setErr c e) = Cmder_Val c"
  by (cases c) (simp_all add: setErr_def)

lemma Cmder_setErr_args: "Cmder_args (Cmder_setErr c e) = Cmder_args c"
  by (cases c) (simp_all add: setErr_def args_def)

lemma setCmdsErr_map: "setCmdsErr cmds e = map (\<lambda>cmd. Cmder_setErr cmd e) cmds"
  by (induction cmds) simp_all

text \<open>
  C7: for every nilable error \<open>e\<close> and every collection of commands, \<^verbatim>\<open>setCmdsErr\<close>
  leaves as many commands as there were, each with \<^verbatim>\<open>Err()\<close> equal to \<open>e\<close> and with its
  decoded value (and its arguments) unchanged.
\<close>

theorem C7_setCmdsErr:
  "length (setCmdsErr cmds e) = length cmds \<and>
   (\<forall>i < length cmds.
      Cmder_Err (setCmdsErr cmds e ! i) = e \<and>
      Cmder_Val (setCmdsErr cmds e ! i) = Cmder_Val (cmds ! i) \<and>
      Cmder_args (setCmdsErr cmds e ! i) = Cmder_args (cmds ! i))"
  by (simp add: setCmdsErr_map Cmder_setErr_Err Cmder_setErr_Val Cmder_setErr_args)

text \<open>C7 at a batch of two commands failed with an I/O error.\<close>

theorem C7_setCmdsErr_witness:
  "Cmder_Err (setCmdsErr [C_IntCmd ((NewIntCmd [''INCR'', ''k''])\<lparr>IntCmd_val := 7\<rparr>),
                          C_StatusCmd (NewStatusCmd [''PING''])]
                (Some (OtherError ''EOF'')) ! 0) = Some (OtherError ''EOF'') \<and>
   Cmder_Val (setCmdsErr [C_IntCmd ((NewIntCmd [''INCR'', ''k''])\<lparr>IntCmd_val := 7\<rparr>),
                          C_StatusCmd (NewStatusCmd [''PING''])]
                (Some (OtherError ''EOF'')) ! 0) = V_IntCmd 7 \<and>
   Cmder_Err (setCmdsErr [C_IntCmd ((NewIntCmd [''INCR'', ''k''])\<lparr>IntCmd_val := 7\<rparr>),
                          C_StatusCmd (NewStatusCmd [''PING''])]
                (Some (OtherError ''EOF'')) ! 1) = Some (OtherError ''EOF'')"
proof -
  let ?cmds = "[C_IntCmd ((NewIntCmd [''INCR'', ''k''])\<lparr>IntCmd_val := 7\<rparr>),
                C_StatusCmd (NewStatusCmd [''PING''])]"
  let ?e = "Some (OtherError ''EOF'')"
  have in0: "0 < length ?cmds" and in1: "1 < length ?cmds"
    by simp_all
  show ?thesis
    using C7_setCmdsErr [of ?cmds ?e, THEN conjunct2, rule_format, OF in0]
      C7_setCmdsErr [of ?cmds ?e, THEN conjunct2, rule_format, OF in1]
    by (simp add: NewIntCmd_def)
qed

subsection \<open>The cluster key\<close>

text \<open>
  C8: for every command, when a key position is configured (position above 0),
  \<^verbatim>\<open>clusterKey()\<close> returns the argument \<open>a\<close> at that position of the argument vector; when
  the key position is 0 it returns the empty string.
\<close>

theorem C8_clusterKey:
  "(0 < p_clusterKeyPos cmd \<longrightarrow> index (p_args cmd) (p_clusterKeyPos cmd) = Inr a \<longrightarrow>
      clusterKey cmd = Inr a) \<and>
   (p_clusterKeyPos cmd = 0 \<longrightarrow> clusterKey cmd = Inr [])"
  by (auto simp add: clusterKey_def index_def len_def split: if_splits)

text \<open>C8 at \<^verbatim>\<open>GET user:1\<close> (key position 1) and at a generic \<^verbatim>\<open>PING\<close> (key position 0).\<close>

theorem C8_clusterKey_witness:
  "0 < p_clusterKeyPos (NewStringCmd [''GET'', ''user:1'']) \<and>
   index (p_args (NewStringCmd [''GET'', ''user:1'']))
     (p_clusterKeyPos (NewStringCmd [''GET'', ''user:1''])) = Inr ''user:1'' \<and>
   clusterKey (NewStringCmd [''GET'', ''user:1'']) = Inr ''user:1'' \<and>
   p_clusterKeyPos (NewCmd [''PING'']) = 0 \<and>
   clusterKey (NewCmd [''PING'']) = Inr []"
  using C8_clusterKey [of "NewStringCmd [''GET'', ''user:1'']" "''user:1''"]
    C8_clusterKey [of "NewCmd [''PING'']"]
  by (simp add: NewStringCmd_def NewCmd_def index_def)

text \<open>
  C9: \<^verbatim>\<open>clusterKey()\<close> returns a string for every command and never panics; when the key
  position is at or beyond the length of the argument vector, or is 0 or negative, the string
  is empty.
\<close>

theorem C9_clusterKey_total:
  "(\<exists>s. clusterKey cmd = Inr s) \<and>
   (len (p_args cmd) \<le> p_clusterKeyPos cmd \<or> p_clusterKeyPos cmd \<le> 0 \<longrightarrow>
      clusterKey cmd = Inr [])"
  by (auto simp add: clusterKey_def index_def len_def)

text \<open>C9 at \<^verbatim>\<open>PING\<close> with key position 1 (one argument only) and with key position -1.\<close>

theorem C9_clusterKey_total_witness:
  "len (p_args (NewStatusCmd [''PING''])) \<le> p_clusterKeyPos (NewStatusCmd [''PING'']) \<and>
   clusterKey (NewStatusCmd [''PING'']) = Inr [] \<and>
   p_clusterKeyPos ((NewStatusCmd [''PING''])\<lparr>p_clusterKeyPos := - 1\<rparr>) \<le> 0 \<and>
   clusterKey ((NewStatusCmd [''PING''])\<lparr>p_clusterKeyPos := - 1\<rparr>) = Inr []"
  using C9_clusterKey_total [of "NewStatusCmd [''PING'']"]
    C9_clusterKey_total [of "(NewStatusCmd [''PING''])\<lparr>p_clusterKeyPos := - 1\<rparr>"]
  by (simp add: NewStatusCmd_def len_def)

subsection \<open>Formatting a heterogeneous slice\<close>

text \<open>
  Once an element has no branch in the type switch, the loop returns the error frame,
  whatever was written before.
\<close>

lemma FormatSlice_loop_unsupported:
  "\<exists>v \<in> set vs. \<not> supported v \<Longrightarrow>
   FormatSlice_loop ext vs b = ''-'' @ Error (TypeAssertedErr ext) @ CRLF"
proof (induction vs arbitrary: b)
  case Nil
  then show ?case by simp
next
  case (Cons v vs)
  show ?case
  proof (cases "supported v")
    case True
    with Cons.prems have "\<exists>v \<in> set vs. \<not> supported v" by auto
    then have "\<And>b'. FormatSlice_loop ext vs b' = ''-'' @ Error (TypeAssertedErr ext) @ CRLF"
      by (rule Cons.IH)
    with True show ?thesis by (cases v) simp_all
  next
    case False
    then show ?thesis by (cases v) simp_all
  qed
qed

text \<open>
  C10: on the sequence of the string \<^verbatim>\<open>a\<close>, the int 1, the float 1.5 and nil,
  \<^verbatim>\<open>FormatSlice\<close> emits the array header of count 4 and then four frames in order: bulk
  \<^verbatim>\<open>a\<close>, bulk \<^verbatim>\<open>1\<close>, bulk \<^verbatim>\<open>1.5\<close> and the nil bulk frame. The float is any \<open>f\<close> that the
  package's float formatter renders as \<^verbatim>\<open>1.5\<close>. When some element has an unsupported type,
  \<^verbatim>\<open>FormatSlice\<close> returns the error frame with the message of \<^verbatim>\<open>TypeAssertedErr\<close> and no
  array.
\<close>

theorem C10_FormatSlice:
  "(formatFloat ext f = ''1.5'' \<longrightarrow>
      FormatSlice ext [IString ''a'', IInt 1, IFloat64 f, INil] =
        ''*4'' @ CRLF @ ''$1'' @ CRLF @ ''a'' @ CRLF @ ''$1'' @ CRLF @ ''1'' @ CRLF @
        ''$3'' @ CRLF @ ''1.5'' @ CRLF @ ''$-1'' @ CRLF) \<and>
   ((\<exists>v \<in> set val. \<not> supported v) \<longrightarrow>
      FormatSlice ext val = ''-'' @ Error (TypeAssertedErr ext) @ CRLF)"
proof (intro conjI impI)
  assume "formatFloat ext f = ''1.5''"
  then show "FormatSlice ext [IString ''a'', IInt 1, IFloat64 f, INil] =
        ''*4'' @ CRLF @ ''$1'' @ CRLF @ ''a'' @ CRLF @ ''$1'' @ CRLF @ ''1'' @ CRLF @
        ''$3'' @ CRLF @ ''1.5'' @ CRLF @ ''$-1'' @ CRLF"
    by (simp add: FormatSlice_def write_bulk_def WriteByte_def WriteString_def
        formatInt_def Itoa_def len_def decimal_def digits.simps)
next
  assume "\<exists>v \<in> set val. \<not> supported v"
  then show "FormatSlice ext val = ''-'' @ Error (TypeAssertedErr ext) @ CRLF"
    by (simp add: FormatSlice_def FormatSlice_loop_unsupported)
qed

text \<open>
  C10 with a float formatter that renders the bit pattern of 1.5 as \<^verbatim>\<open>1.5\<close>, and at a
  slice whose second element is a boolean.
\<close>

theorem C10_FormatSlice_witness:
  "formatFloat
     \<lparr>formatFloat = (\<lambda>x. if x = 0x3FF8000000000000 then ''1.5'' else ''0''),
      formatMs = formatInt, formatSec = formatInt,
      TypeAssertedErr = OtherError ''redis: type asserted error'',
      ParseFloat = (\<lambda>s. (0, None)), ParseInt = (\<lambda>s. (0, None))\<rparr> 0x3FF8000000000000 = ''1.5'' \<and>
   FormatSlice
     \<lparr>formatFloat = (\<lambda>x. if x = 0x3FF8000000000000 then ''1.5'' else ''0''),
      formatMs = formatInt, formatSec = formatInt,
      TypeAssertedErr = OtherError ''redis: type asserted error'',
      ParseFloat = (\<lambda>s. (0, None)), ParseInt = (\<lambda>s. (0, None))\<rparr>
     [IString ''a'', IInt 1, IFloat64 0x3FF8000000000000, INil] =
     ''*4'' @ CRLF @ ''$1'' @ CRLF @ ''a'' @ CRLF @ ''$1'' @ CRLF @ ''1'' @ CRLF @
     ''$3'' @ CRLF @ ''1.5'' @ CRLF @ ''$-1'' @ CRLF \<and>
   (\<exists>v \<in> set [IString ''a'', IBool True]. \<not> supported v) \<and>
   FormatSlice
     \<lparr>formatFloat = (\<lambda>x. if x = 0x3FF8000000000000 then ''1.5'' else ''0''),
      formatMs = formatInt, formatSec = formatInt,
      TypeAssertedErr = OtherError ''redis: type asserted error'',
      ParseFloat = (\<lambda>s. (0, None)), ParseInt = (\<lambda>s. (0, None))\<rparr>
     [IString ''a'', IBool True] = ''-redis: type asserted error'' @ CRLF"
proof -
  let ?ext = "\<lparr>formatFloat = (\<lambda>x. if x = 0x3FF8000000000000 then ''1.5'' else ''0''),
      formatMs = formatInt, formatSec = formatInt,
      TypeAssertedErr = OtherError ''redis: type asserted error'',
      ParseFloat = (\<lambda>s. (0, None)), ParseInt = (\<lambda>s. (0, None))\<rparr>"
  have h1: "formatFloat ?ext 0x3FF8000000000000 = ''1.5''"
    by simp
  have h2: "\<exists>v \<in> set [IString ''a'', IBool True]. \<not> supported v"
    by simp
  have t: "FormatSlice ?ext [IString ''a'', IInt 1, IFloat64 0x3FF8000000000000, INil] =
        ''*4'' @ CRLF @ ''$1'' @ CRLF @ ''a'' @ CRLF @ ''$1'' @ CRLF @ ''1'' @ CRLF @
        ''$3'' @ CRLF @ ''1.5'' @ CRLF @ ''$-1'' @ CRLF"
    using C10_FormatSlice [of ?ext "0x3FF8000000000000", THEN conjunct1, rule_format, OF h1] .
  have u: "FormatSlice ?ext [IString ''a'', IBool True] =
        ''-'' @ Error (TypeAssertedErr ?ext) @ CRLF"
    using C10_FormatSlice [of ?ext _ "[IString ''a'', IBool True]", THEN conjunct2,
        rule_format, OF h2] .
  from h1 h2 t u show ?thesis
    by simp
qed

end
